theory Spec2Isabelle
  imports Complex_Main "HOL-Library.Sublist"
begin

section \<open>The data frame held by the cleaning page\<close>

text \<open>
  \<^verbatim>\<open>dataclean.py\<close> is a Streamlit page script over one pandas DataFrame kept in
  \<^verbatim>\<open>st.session_state.data\<close>. A cell is either the missing marker (NaN, None, NaT:
  whatever \<^verbatim>\<open>isnull\<close> answers True on), a number, a text or a time stamp. Numbers are
  float64 in pandas; they are idealised here as rationals, so that sums and quotients are
  exact.
\<close>

datatype cell = Missing | Num rat | Txt string | Stamp int

text \<open>
  The dtype of a column decides which branch of the fill handler touches it:
  \<^verbatim>\<open>select_dtypes(include=[np.number])\<close> picks the int64 and float64 columns,
  \<^verbatim>\<open>select_dtypes(include=['object'])\<close> the object columns (texts, and the
  booleans that the loader turned into strings). A spreadsheet can also give a
  datetime64 column, which neither selects.
\<close>

datatype dtype = Numeric | Object | Datetime

text \<open>
  A frame is its header and its rows. The number of rows is the length of the index, which a
  frame keeps even when it has no column left.
\<close>

record dataframe =
  columns :: "(string \<times> dtype) list"
  rows :: "cell list list"

definition len :: "dataframe \<Rightarrow> nat" where
  "len df = length (rows df)"

definition names :: "dataframe \<Rightarrow> string list" where
  "names df = map fst (columns df)"

text \<open>\<^verbatim>\<open>df[col]\<close> at position \<open>j\<close> of the header: the cells of that column, top to bottom.\<close>

definition column_cells :: "dataframe \<Rightarrow> nat \<Rightarrow> cell list" where
  "column_cells df j = map (\<lambda>r. r ! j) (rows df)"



section \<open>Session state\<close>

text \<open>
  \<^verbatim>\<open>if 'data' not in st.session_state: st.session_state.data = data.copy()\<close>
\<close>

record session =
  data :: "dataframe option"

definition initialize :: "dataframe \<Rightarrow> session \<Rightarrow> session" where
  "initialize table s = (case data s of None \<Rightarrow> s\<lparr>data := Some table\<rparr> | Some _ \<Rightarrow> s)"

section \<open>Missing values\<close>

definition isnull :: "cell \<Rightarrow> bool" where
  "isnull c = (c = Missing)"

text \<open>\<^verbatim>\<open>df.isnull().sum()\<close>: per column, the number of missing cells.\<close>

definition missing_count :: "dataframe \<Rightarrow> nat \<Rightarrow> nat" where
  "missing_count df j = length (filter isnull (column_cells df j))"

text \<open>
  \<^verbatim>\<open>(missing_count.values / len(df) * 100).round(2)\<close> is numpy arithmetic on floats:
  dividing by zero raises nothing, \<open>0 / 0\<close> is NaN and \<open>n / 0\<close> is infinite. The finite
  results are idealised as rationals; \<^verbatim>\<open>round(2)\<close> scales by 100, rounds half to even
  and scales back.
\<close>

datatype fnum = NaN | PosInf | Fin rat

definition np_div :: "nat \<Rightarrow> nat \<Rightarrow> fnum" where
  "np_div a b = (if b = 0 then (if a = 0 then NaN else PosInf) else Fin (of_nat a / of_nat b))"

definition np_times :: "fnum \<Rightarrow> rat \<Rightarrow> fnum" where
  "np_times x k = (case x of Fin q \<Rightarrow> Fin (q * k) | other \<Rightarrow> other)"

definition rint :: "rat \<Rightarrow> int" where
  "rint x =
     (let f = \<lfloor>x\<rfloor>; d = x - of_int f
      in if d < 1 / 2 then f else if 1 / 2 < d then f + 1 else if even f then f else f + 1)"

definition np_round2 :: "fnum \<Rightarrow> fnum" where
  "np_round2 x = (case x of Fin q \<Rightarrow> Fin (of_int (rint (q * 100)) / 100) | other \<Rightarrow> other)"

definition missing_percentage :: "dataframe \<Rightarrow> nat \<Rightarrow> fnum" where
  "missing_percentage df j = np_round2 (np_times (np_div (missing_count df j) (len df)) 100)"

text \<open>
  The report \<^verbatim>\<open>missing_data\<close>: one line per column, then
  \<^verbatim>\<open>missing_data[missing_data['Missing Count'] > 0]\<close>.
\<close>

record missing_line =
  m_column :: string
  m_count :: nat
  m_percentage :: fnum

definition missing_line_of :: "dataframe \<Rightarrow> nat \<Rightarrow> missing_line" where
  "missing_line_of df j =
     \<lparr>m_column = names df ! j, m_count = missing_count df j,
      m_percentage = missing_percentage df j\<rparr>"

definition missing_data :: "dataframe \<Rightarrow> missing_line list" where
  "missing_data df =
     filter (\<lambda>e. m_count e > 0) (map (missing_line_of df) [0..<length (columns df)])"

text \<open>
  \<^verbatim>\<open>[col for col in df.columns if df[col].isnull().all()]\<close>: \<^verbatim>\<open>all()\<close> of no cell
  at all is True.
\<close>

definition all_missing_cols :: "dataframe \<Rightarrow> string list" where
  "all_missing_cols df =
     map (\<lambda>j. names df ! j)
       (filter (\<lambda>j. list_all isnull (column_cells df j)) [0..<length (columns df)])"

text \<open>
  The page computes that list only in the \<^verbatim>\<open>else\<close> branch of
  \<^verbatim>\<open>if len(missing_data) == 0\<close>; in the other branch no column is reported as
  all missing.
\<close>

definition reported_all_missing :: "dataframe \<Rightarrow> string list" where
  "reported_all_missing df = (if missing_data df = [] then [] else all_missing_cols df)"

text \<open>\<^verbatim>\<open>df.drop(columns=names)\<close>, called by the page with names of the frame itself.\<close>

definition drop_columns :: "dataframe \<Rightarrow> string list \<Rightarrow> dataframe" where
  "drop_columns df ns =
     df\<lparr>columns := filter (\<lambda>c. fst c \<notin> set ns) (columns df),
        rows := map (\<lambda>r. map snd (filter (\<lambda>(c, x). fst c \<notin> set ns) (zip (columns df) r)))
                  (rows df)\<rparr>"

text \<open>\<^verbatim>\<open>df.dropna()\<close>: the rows without any missing cell, in their order.\<close>

definition dropna :: "dataframe \<Rightarrow> dataframe" where
  "dropna df = df\<lparr>rows := filter (\<lambda>r. \<not> list_ex isnull r) (rows df)\<rparr>"

text \<open>
  \<^verbatim>\<open>Series.mean()\<close> skips the missing cells; over no value at all it is NaN, which
  in a float column is the missing marker itself.
\<close>

fun values_of :: "cell list \<Rightarrow> rat list" where
  "values_of [] = []"
| "values_of (Num x # cs) = x # values_of cs"
| "values_of (_ # cs) = values_of cs"

definition mean :: "cell list \<Rightarrow> cell" where
  "mean cs =
     (let vs = values_of cs
      in if vs = [] then Missing else Num (sum_list vs / of_nat (length vs)))"

text \<open>\<^verbatim>\<open>fillna(v)\<close> on one cell: a missing cell takes \<open>v\<close>, any other cell stays.\<close>

definition fillna :: "cell \<Rightarrow> cell \<Rightarrow> cell" where
  "fillna v c = (if isnull c then v else c)"

text \<open>
  The fill handler: the numeric columns are filled with their own means, then the object
  columns with \<^verbatim>\<open>'Unknown'\<close>; columns of any other dtype are not selected.
\<close>

definition fill_value :: "dataframe \<Rightarrow> nat \<Rightarrow> cell" where
  "fill_value df j =
     (case snd (columns df ! j) of
        Numeric \<Rightarrow> mean (column_cells df j)
      | Object \<Rightarrow> Txt ''Unknown''
      | Datetime \<Rightarrow> Missing)"

definition fill_missing :: "dataframe \<Rightarrow> dataframe" where
  "fill_missing df =
     df\<lparr>rows := map (\<lambda>r. map (\<lambda>j. fillna (fill_value df j) (r ! j)) [0..<length r]) (rows df)\<rparr>"

section \<open>Duplicate rows\<close>

text \<open>
  \<^verbatim>\<open>DataFrame.empty\<close> is True when either axis has length 0. pandas answers
  \<^verbatim>\<open>duplicated\<close> on an empty frame with an empty mask and \<^verbatim>\<open>drop_duplicates\<close>
  with a copy of the frame.
\<close>

definition empty_frame :: "dataframe \<Rightarrow> bool" where
  "empty_frame df = (rows df = [] \<or> columns df = [])"

text \<open>
  \<^verbatim>\<open>duplicated()\<close> (keep first): a row is marked when an equal row came before it.
  Missing cells compare equal to each other here.
\<close>

fun mark_later :: "cell list list \<Rightarrow> cell list list \<Rightarrow> bool list" where
  "mark_later seen [] = []"
| "mark_later seen (r # rs) = (r \<in> set seen) # mark_later (r # seen) rs"

text \<open>\<^verbatim>\<open>duplicated(keep=False)\<close>: a row is marked when an equal row stands anywhere else.\<close>

fun mark_all :: "cell list list \<Rightarrow> cell list list \<Rightarrow> bool list" where
  "mark_all seen [] = []"
| "mark_all seen (r # rs) = (r \<in> set seen \<or> r \<in> set rs) # mark_all (r # seen) rs"

definition duplicated :: "dataframe \<Rightarrow> bool list" where
  "duplicated df = (if empty_frame df then [] else mark_later [] (rows df))"

definition duplicated_keep_False :: "dataframe \<Rightarrow> bool list" where
  "duplicated_keep_False df = (if empty_frame df then [] else mark_all [] (rows df))"

text \<open>\<^verbatim>\<open>duplicated().sum()\<close>\<close>

definition duplicate_count :: "dataframe \<Rightarrow> nat" where
  "duplicate_count df = length (filter (\<lambda>b. b) (duplicated df))"

text \<open>Boolean indexing \<^verbatim>\<open>df[mask]\<close> with a mask as long as the frame.\<close>

definition select_rows :: "bool list \<Rightarrow> cell list list \<Rightarrow> cell list list" where
  "select_rows flags rs = map fst (filter snd (zip rs flags))"

text \<open>
  The preview \<^verbatim>\<open>duplicates\<close> exists only in the branch where the count is not 0.
\<close>

definition duplicates :: "dataframe \<Rightarrow> cell list list option" where
  "duplicates df =
     (if duplicate_count df = 0 then None
      else Some (select_rows (duplicated_keep_False df) (rows df)))"

definition drop_duplicates :: "dataframe \<Rightarrow> dataframe" where
  "drop_duplicates df =
     (if empty_frame df then df
      else df\<lparr>rows := select_rows (map Not (duplicated df)) (rows df)\<rparr>)"

section \<open>One run of the cleaning tab\<close>

text \<open>
  Streamlit runs the script top to bottom on every interaction; at most one button answers
  True in a run, and only where the run reaches its call. A run ends by falling off the end,
  by \<^verbatim>\<open>st.rerun()\<close> or by \<^verbatim>\<open>st.stop()\<close>. Assignments to
  \<^verbatim>\<open>st.session_state.data\<close> made before the run ends stay.
\<close>

datatype button = RemoveEmptyColumns | DeleteRows | FillMissing | RemoveDuplicates

datatype ending = Finished | Rerun | Stopped

datatype notice =
    NoMissingValues
  | MissingTable "missing_line list"
  | AllMissingWarning "string list"
  | RemovedEmptyColumns nat
  | WouldDeleteAllRows
  | DeletedRows nat
  | FilledAllMissing
  | NoDuplicates
  | FoundDuplicates nat
  | RemovedDuplicates nat

record run_result =
  held :: dataframe
  notices :: "notice list"
  ended :: ending

text \<open>Lines 51 to 113: the missing values section.\<close>

definition missing_section :: "button option \<Rightarrow> dataframe \<Rightarrow> run_result" where
  "missing_section click df =
     (if missing_data df = [] then
        \<lparr>held = df, notices = [NoMissingValues], ended = Finished\<rparr>
      else
        let cols = all_missing_cols df;
            shown = MissingTable (missing_data df) #
                    (if cols \<noteq> [] then [AllMissingWarning cols] else [])
        in
        if cols \<noteq> [] \<and> click = Some RemoveEmptyColumns then
          \<lparr>held = drop_columns df cols, notices = shown @ [RemovedEmptyColumns (length cols)],
           ended = Rerun\<rparr>
        else if click = Some DeleteRows then
          (let original_rows = len df;
               df' = dropna df;
               removed = original_rows - len df'
           in if len df' = 0 then
                \<lparr>held = df', notices = shown @ [WouldDeleteAllRows], ended = Stopped\<rparr>
              else
                \<lparr>held = df', notices = shown @ [DeletedRows removed], ended = Rerun\<rparr>)
        else if click = Some FillMissing then
          \<lparr>held = fill_missing df, notices = shown @ [FilledAllMissing], ended = Rerun\<rparr>
        else
          \<lparr>held = df, notices = shown, ended = Finished\<rparr>)"

text \<open>Lines 115 to 134: the duplicate records section.\<close>

definition duplicate_section :: "button option \<Rightarrow> dataframe \<Rightarrow> run_result" where
  "duplicate_section click df =
     (if duplicate_count df = 0 then
        \<lparr>held = df, notices = [NoDuplicates], ended = Finished\<rparr>
      else if click = Some RemoveDuplicates then
        (let df' = drop_duplicates df
         in \<lparr>held = df', notices = [FoundDuplicates (duplicate_count df),
                                     RemovedDuplicates (len df')], ended = Rerun\<rparr>)
      else
        \<lparr>held = df, notices = [FoundDuplicates (duplicate_count df)], ended = Finished\<rparr>)"

text \<open>
  The cleaning tab on the held frame: the duplicate section runs only when the missing
  section fell through.
\<close>

definition cleaning :: "button option \<Rightarrow> dataframe \<Rightarrow> run_result" where
  "cleaning click df =
     (let m = missing_section click df
      in if ended m = Finished then
           (let d = duplicate_section click (held m)
            in d\<lparr>notices := notices m @ notices d\<rparr>)
         else m)"

text \<open>
  Lines 44 to 134 for one run: seed the session if it has no frame yet, run the tab on the
  held frame and keep what the run assigned.
\<close>

definition tab2 :: "dataframe \<Rightarrow> button option \<Rightarrow> session \<Rightarrow> session \<times> notice list \<times> ending" where
  "tab2 uploaded click s =
     (let s1 = initialize uploaded s
      in case data s1 of
           None \<Rightarrow> (s1, [], Finished)
         | Some df \<Rightarrow>
             (let r = cleaning click df
              in (s1\<lparr>data := Some (held r)\<rparr>, notices r, ended r)))"

section \<open>Session state: seeding happens once\<close>

lemma initialize_holds: "data (initialize table s) \<noteq> None"
  by (simp add: initialize_def split: option.splits)

text \<open>
  A run without a click on a session that holds a frame leaves the session as it is, whatever
  was uploaded: revisiting the page does not undo the cleaning done so far.
\<close>

lemma held_cleaning_None: "held (cleaning None df) = df"
  by (simp add: cleaning_def missing_section_def duplicate_section_def Let_def)

lemma tab2_revisit: "fst (tab2 uploaded None (s\<lparr>data := Some d\<rparr>)) = s\<lparr>data := Some d\<rparr>"
  by (simp add: tab2_def initialize_def held_cleaning_None Let_def)


section \<open>Missing values: the report and the all-missing columns\<close>

lemma length_column_cells: "length (column_cells df j) = len df"
  by (simp add: column_cells_def len_def)

lemma missing_count_le: "missing_count df j \<le> len df"
  using length_filter_le[of isnull "column_cells df j"]
  by (simp add: missing_count_def length_column_cells)

lemma missing_data_eq:
  "missing_data df =
     map (missing_line_of df) (filter (\<lambda>j. 0 < missing_count df j) [0..<length (columns df)])"
  by (simp add: missing_data_def filter_map comp_def missing_line_of_def)

lemma missing_data_empty_iff:
  "missing_data df = [] \<longleftrightarrow> (\<forall>j < length (columns df). missing_count df j = 0)"
  by (auto simp: missing_data_eq filter_empty_conv)

lemma missing_data_no_rows: "rows df = [] \<Longrightarrow> missing_data df = []"
  by (simp add: missing_data_empty_iff missing_count_def column_cells_def)

lemma missing_count_all:
  "list_all isnull (column_cells df j) \<Longrightarrow> missing_count df j = len df"
  by (simp add: missing_count_def list_all_iff length_column_cells)

lemma set_all_missing_cols:
  "set (all_missing_cols df) =
     {n. \<exists>j < length (columns df). names df ! j = n \<and> list_all isnull (column_cells df j)}"
  by (auto simp: all_missing_cols_def)

text \<open>
  C3. A column name is reported as all missing exactly when some column of that name has
  every cell missing and the frame has at least one row; for a frame without rows nothing is
  reported. The list comprehension alone would name every column of a frame without rows;
  the page reaches it only when the missing values report has a line, which needs a row.
\<close>

theorem reported_all_missing_iff:
  "(n \<in> set (reported_all_missing df) \<longleftrightarrow>
      (\<exists>j < length (columns df). names df ! j = n \<and> list_all isnull (column_cells df j)) \<and>
      0 < len df) \<and>
   reported_all_missing (df\<lparr>rows := []\<rparr>) = []"
proof -
  have none: "reported_all_missing (df\<lparr>rows := []\<rparr>) = []"
    by (simp add: reported_all_missing_def missing_data_no_rows)
  have iff: "n \<in> set (reported_all_missing df) \<longleftrightarrow>
      (\<exists>j < length (columns df). names df ! j = n \<and> list_all isnull (column_cells df j)) \<and>
      0 < len df"
  proof (cases "missing_data df = []")
    case True
    then have z: "\<And>j. j < length (columns df) \<Longrightarrow> missing_count df j = 0"
      by (simp add: missing_data_empty_iff)
    have "\<not> ((\<exists>j < length (columns df). names df ! j = n \<and> list_all isnull (column_cells df j)) \<and>
               0 < len df)"
    proof
      assume "(\<exists>j < length (columns df). names df ! j = n \<and> list_all isnull (column_cells df j)) \<and>
               0 < len df"
      then obtain j where j: "j < length (columns df)" "list_all isnull (column_cells df j)"
        and pos: "0 < len df" by blast
      from missing_count_all[OF j(2)] z[OF j(1)] pos show False by simp
    qed
    with True show ?thesis by (simp add: reported_all_missing_def)
  next
    case False
    then have "rows df \<noteq> []" using missing_data_no_rows by blast
    then have "0 < len df" by (simp add: len_def)
    with False show ?thesis
      by (simp add: reported_all_missing_def set_all_missing_cols)
  qed
  from iff none show ?thesis by (rule conjI)
qed

lemma all_missing_cols_no_rows: "all_missing_cols (df\<lparr>rows := []\<rparr>) = names df"
  using map_nth[of "map fst (columns df)"]
  by (simp add: all_missing_cols_def column_cells_def names_def)

text \<open>A column entirely missing over five rows is reported, the other is not.\<close>

lemma reported_all_missing_five_rows:
  "reported_all_missing
     \<lparr>columns = [(''a'', Numeric), (''b'', Object)],
      rows = [[Num 1, Missing], [Num 2, Missing], [Num 3, Missing], [Num 4, Missing],
              [Num 5, Missing]]\<rparr> = [''b'']"
  by (simp add: reported_all_missing_def missing_data_def missing_line_of_def
      missing_count_def column_cells_def isnull_def all_missing_cols_def names_def)

lemma rint_near: "\<bar>of_int (rint x) - x\<bar> \<le> 1 / 2"
proof -
  have "of_int \<lfloor>x\<rfloor> \<le> x" "x < of_int \<lfloor>x\<rfloor> + 1" by linarith+
  then show ?thesis by (auto simp: rint_def Let_def)
qed

lemma missing_percentage_Fin:
  "0 < len df \<Longrightarrow>
   missing_percentage df j =
     Fin (of_int (rint (of_nat (missing_count df j) / of_nat (len df) * 100 * 100)) / 100)"
  by (simp add: missing_percentage_def np_div_def np_times_def np_round2_def)

lemma round2_near:
  fixes q :: rat
  shows "\<bar>of_int (rint (q * 100)) / 100 - q\<bar> \<le> 1 / 200"
  using rint_near[of "q * 100"] by (simp add: field_simps abs_le_iff)

text \<open>
  C4. The missing values report has exactly one line per column with at least one missing
  cell, in the order of the columns, carrying the column's name and its number of missing
  cells; every line has a count of at least 1, so the frame has a row and the percentage is
  a finite number: a whole number of hundredths within half a hundredth of count divided by
  row count times 100. For a frame without rows the report has no line, so the NaN that the
  division by the row count 0 yields never shows in it.
\<close>

theorem missing_data_report:
  "missing_data df =
     map (missing_line_of df) (filter (\<lambda>j. 0 < missing_count df j) [0..<length (columns df)]) \<and>
   (\<forall>j < length (columns df).
      m_column (missing_line_of df j) = names df ! j \<and>
      m_count (missing_line_of df j) = length (filter (\<lambda>c. c = Missing) (column_cells df j))) \<and>
   (\<forall>e \<in> set (missing_data df).
      1 \<le> m_count e \<and> 0 < len df \<and>
      (\<exists>k. m_percentage e = Fin (of_int k / 100) \<and>
           \<bar>rat_of_int k / 100 - of_nat (m_count e) / of_nat (len df) * 100\<bar> \<le> 1 / 200)) \<and>
   missing_data (df\<lparr>rows := []\<rparr>) = []"
proof (intro conjI)
  show "missing_data (df\<lparr>rows := []\<rparr>) = []"
    by (simp add: missing_data_no_rows)
  show "missing_data df =
     map (missing_line_of df) (filter (\<lambda>j. 0 < missing_count df j) [0..<length (columns df)])"
    by (rule missing_data_eq)
  show "\<forall>j < length (columns df).
      m_column (missing_line_of df j) = names df ! j \<and>
      m_count (missing_line_of df j) = length (filter (\<lambda>c. c = Missing) (column_cells df j))"
    by (simp add: missing_line_of_def missing_count_def isnull_def[abs_def])
  show "\<forall>e \<in> set (missing_data df).
      1 \<le> m_count e \<and> 0 < len df \<and>
      (\<exists>k. m_percentage e = Fin (of_int k / 100) \<and>
           \<bar>rat_of_int k / 100 - of_nat (m_count e) / of_nat (len df) * 100\<bar> \<le> 1 / 200)"
  proof
    fix e assume "e \<in> set (missing_data df)"
    then obtain j where e: "e = missing_line_of df j" and c: "0 < missing_count df j"
      by (auto simp: missing_data_eq)
    from c missing_count_le[of df j] have pos: "0 < len df" by simp
    let ?q = "of_nat (missing_count df j) / of_nat (len df) * 100 :: rat"
    have p: "m_percentage e = Fin (of_int (rint (?q * 100)) / 100)"
      using missing_percentage_Fin[OF pos, of j] by (simp add: e missing_line_of_def)
    have n: "\<bar>of_int (rint (?q * 100)) / 100 - ?q\<bar> \<le> 1 / 200" by (rule round2_near)
    have m: "m_count e = missing_count df j" by (simp add: e missing_line_of_def)
    from c pos p n show "1 \<le> m_count e \<and> 0 < len df \<and>
      (\<exists>k. m_percentage e = Fin (of_int k / 100) \<and>
           \<bar>rat_of_int k / 100 - of_nat (m_count e) / of_nat (len df) * 100\<bar> \<le> 1 / 200)"
      unfolding m by (intro conjI exI[of _ "rint (?q * 100)"]) simp_all
  qed
qed

text \<open>One missing cell in three rows: 33.33.\<close>

lemma rint_example: "rint (10000 / 3) = 3333"
proof -
  have "\<lfloor>10000 / 3 :: rat\<rfloor> = 3333"
    using floor_divide_of_int_eq[of 10000 3, where ?'a = rat] by simp
  then show ?thesis by (simp add: rint_def Let_def)
qed

lemma missing_data_example:
  "missing_data \<lparr>columns = [(''A'', Numeric), (''B'', Object)],
                 rows = [[Num 1, Txt ''x''], [Missing, Txt ''x''], [Num 3, Txt ''y'']]\<rparr> =
   [\<lparr>m_column = ''A'', m_count = 1, m_percentage = Fin (3333 / 100)\<rparr>]"
  by (simp add: missing_data_def missing_line_of_def missing_count_def column_cells_def
      isnull_def names_def missing_percentage_def np_div_def np_times_def np_round2_def len_def
      rint_example)

theorem missing_data_report_witness:
  "missing_data \<lparr>columns = [(''A'', Numeric), (''B'', Object)],
                 rows = [[Num 1, Txt ''x''], [Missing, Txt ''x''], [Num 3, Txt ''y'']]\<rparr> =
     [\<lparr>m_column = ''A'', m_count = 1, m_percentage = Fin (3333 / 100)\<rparr>] \<and>
   (\<exists>k. Fin (3333 / 100) = Fin (of_int k / 100) \<and>
        \<bar>rat_of_int k / 100 - of_nat 1 / of_nat 3 * 100\<bar> \<le> 1 / 200)"
proof -
  let ?df = "\<lparr>columns = [(''A'', Numeric), (''B'', Object)],
              rows = [[Num 1, Txt ''x''], [Missing, Txt ''x''], [Num 3, Txt ''y'']]\<rparr>"
  let ?e = "\<lparr>m_column = ''A'', m_count = 1, m_percentage = Fin (3333 / 100)\<rparr>"
  have m: "missing_data ?df = [?e]" by (rule missing_data_example)
  then have "?e \<in> set (missing_data ?df)" by simp
  with missing_data_report[of ?df]
  have "\<exists>k. m_percentage ?e = Fin (of_int k / 100) \<and>
           \<bar>rat_of_int k / 100 - of_nat (m_count ?e) / of_nat (len ?df) * 100\<bar> \<le> 1 / 200"
    by blast
  then have "\<exists>k. Fin (3333 / 100) = Fin (of_int k / 100) \<and>
        \<bar>rat_of_int k / 100 - of_nat 1 / of_nat 3 * 100\<bar> \<le> 1 / 200"
    by (simp add: len_def)
  with m show ?thesis by (rule conjI)
qed

section \<open>Deleting the rows with missing values\<close>

lemma dropna_every_row_incomplete:
  "list_all (list_ex isnull) (rows df) \<Longrightarrow> dropna df = df\<lparr>rows := []\<rparr>"
  by (simp add: dropna_def list_all_iff filter_empty_conv)

lemma missing_count_pos:
  assumes "r \<in> set (rows df)" and "isnull (r ! j)"
  shows "0 < missing_count df j"
proof -
  from assms have "r ! j \<in> set (filter isnull (column_cells df j))"
    by (auto simp: column_cells_def)
  then have "filter isnull (column_cells df j) \<noteq> []"
    by (metis empty_iff empty_set)
  then show ?thesis by (simp add: missing_count_def)
qed

lemma missing_data_incomplete_row:
  assumes len: "list_all (\<lambda>r. length r = length (columns df)) (rows df)"
    and r: "r \<in> set (rows df)" and m: "list_ex isnull r"
  shows "missing_data df \<noteq> []"
proof -
  from m obtain j where j: "j < length r" "isnull (r ! j)"
    by (auto simp: list_ex_iff in_set_conv_nth)
  from len r have "length r = length (columns df)" by (simp add: list_all_iff)
  with j have "j < length (columns df)" by simp
  moreover have "0 < missing_count df j" using r j(2) by (rule missing_count_pos)
  ultimately show ?thesis by (auto simp: missing_data_empty_iff)
qed

text \<open>
  Whenever every row of a frame with at least one row has a missing cell, the delete handler
  stops with the error notice, and the frame it leaves in the session is the emptied one.
\<close>

lemma delete_rows_every_row_incomplete:
  assumes len: "list_all (\<lambda>r. length r = length (columns df)) (rows df)"
    and ne: "rows df \<noteq> []"
    and inc: "list_all (list_ex isnull) (rows df)"
  shows "cleaning (Some DeleteRows) df =
           \<lparr>held = df\<lparr>rows := []\<rparr>,
            notices = MissingTable (missing_data df) #
                      (if all_missing_cols df \<noteq> [] then [AllMissingWarning (all_missing_cols df)]
                       else []) @ [WouldDeleteAllRows],
            ended = Stopped\<rparr>"
proof -
  from ne obtain r where r: "r \<in> set (rows df)" by (cases "rows df") auto
  with inc have "list_ex isnull r" by (simp add: list_all_iff)
  with len r have md: "missing_data df \<noteq> []" by (rule missing_data_incomplete_row)
  have d: "dropna df = df\<lparr>rows := []\<rparr>" using inc by (rule dropna_every_row_incomplete)
  show ?thesis
    by (simp add: cleaning_def missing_section_def md d len_def Let_def)
qed

text \<open>On a frame without rows the delete button is not reached: nothing changes, no error.\<close>

lemma delete_rows_no_rows:
  "rows df = [] \<Longrightarrow>
   cleaning (Some DeleteRows) df =
     \<lparr>held = df, notices = [NoMissingValues, NoDuplicates], ended = Finished\<rparr>"
  by (simp add: cleaning_def missing_section_def missing_data_no_rows duplicate_section_def
      duplicate_count_def duplicated_def empty_frame_def)

text \<open>
  C1, at a frame with two rows that each have a missing cell. The handler assigns the result
  of \<^verbatim>\<open>dropna()\<close> to \<^verbatim>\<open>st.session_state.data\<close> before it looks at its
  length: the run shows the error and stops, and the session is left holding the frame
  without rows.
\<close>

theorem delete_rows_commits_empty_frame:
  "tab2 \<lparr>columns = [(''a'', Numeric), (''b'', Object)],
         rows = [[Num 1, Missing], [Missing, Txt ''x'']]\<rparr>
        (Some DeleteRows)
        \<lparr>data = Some \<lparr>columns = [(''a'', Numeric), (''b'', Object)],
                       rows = [[Num 1, Missing], [Missing, Txt ''x'']]\<rparr>\<rparr> =
   (\<lparr>data = Some \<lparr>columns = [(''a'', Numeric), (''b'', Object)], rows = []\<rparr>\<rparr>,
    [MissingTable [\<lparr>m_column = ''a'', m_count = 1, m_percentage = Fin 50\<rparr>,
                   \<lparr>m_column = ''b'', m_count = 1, m_percentage = Fin 50\<rparr>],
     WouldDeleteAllRows],
    Stopped)"
  by (simp add: tab2_def initialize_def cleaning_def missing_section_def missing_data_def
      missing_line_of_def missing_count_def column_cells_def isnull_def names_def
      missing_percentage_def np_div_def np_times_def np_round2_def rint_def len_def
      all_missing_cols_def dropna_def Let_def)

section \<open>Filling the missing values\<close>

lemma columns_fill_missing: "columns (fill_missing df) = columns df"
  by (simp add: fill_missing_def)

lemma len_fill_missing: "len (fill_missing df) = len df"
  by (simp add: fill_missing_def len_def)

lemma row_fill_missing:
  "i < len df \<Longrightarrow>
   rows (fill_missing df) ! i =
     map (\<lambda>j. fillna (fill_value df j) (rows df ! i ! j)) [0..<length (rows df ! i)]"
  by (simp add: fill_missing_def len_def)







text \<open>
  C10. Filling keeps the header (names, dtypes and their order), the number of rows and the
  length of every row, and every cell that was not missing keeps its value.
\<close>

theorem fill_missing_frame:
  "columns (fill_missing df) = columns df \<and>
   len (fill_missing df) = len df \<and>
   (\<forall>i < len df.
      length (rows (fill_missing df) ! i) = length (rows df ! i) \<and>
      (\<forall>j < length (rows df ! i).
         rows df ! i ! j \<noteq> Missing \<longrightarrow> rows (fill_missing df) ! i ! j = rows df ! i ! j))"
  by (simp add: columns_fill_missing len_fill_missing row_fill_missing fillna_def isnull_def)

theorem fill_missing_frame_witness:
  "len \<lparr>columns = [(''A'', Numeric), (''B'', Object)],
        rows = [[Num 1, Txt ''x''], [Missing, Missing], [Num 3, Txt ''y'']]\<rparr> = 3 \<and>
   len (fill_missing \<lparr>columns = [(''A'', Numeric), (''B'', Object)],
        rows = [[Num 1, Txt ''x''], [Missing, Missing], [Num 3, Txt ''y'']]\<rparr>) = 3 \<and>
   rows (fill_missing \<lparr>columns = [(''A'', Numeric), (''B'', Object)],
        rows = [[Num 1, Txt ''x''], [Missing, Missing], [Num 3, Txt ''y'']]\<rparr>) ! 2 ! 0 = Num 3"
proof -
  let ?df = "\<lparr>columns = [(''A'', Numeric), (''B'', Object)],
              rows = [[Num 1, Txt ''x''], [Missing, Missing], [Num 3, Txt ''y'']]\<rparr>"
  have l: "len ?df = 3" by (simp add: len_def)
  have i: "2 < len ?df" by (simp add: len_def)
  have j: "0 < length (rows ?df ! 2)" by simp
  have n: "rows ?df ! 2 ! 0 \<noteq> Missing" by simp
  from fill_missing_frame[of ?df] i
  have "\<forall>j < length (rows ?df ! 2).
         rows ?df ! 2 ! j \<noteq> Missing \<longrightarrow> rows (fill_missing ?df) ! 2 ! j = rows ?df ! 2 ! j"
    by blast
  with j n have "rows (fill_missing ?df) ! 2 ! 0 = rows ?df ! 2 ! 0" by blast
  moreover from fill_missing_frame[of ?df] l have "len (fill_missing ?df) = 3" by simp
  ultimately show ?thesis using l by simp
qed

text \<open>The fill button is reached whenever the report has a line, and then the filled frame is held.\<close>

lemma cleaning_fill:
  "missing_data df \<noteq> [] \<Longrightarrow>
   held (cleaning (Some FillMissing) df) = fill_missing df \<and>
   ended (cleaning (Some FillMissing) df) = Rerun"
  by (simp add: cleaning_def missing_section_def Let_def)

text \<open>
  C2, at a frame whose numeric column has no value. The mean of that column is NaN, filling
  with it leaves every cell of the column missing, and the handler's own notice is the
  success message; the warning in the run is the one the page shows for all-missing columns
  before any button, clicked or not.
\<close>

theorem fill_leaves_all_missing_numeric_column:
  "tab2 \<lparr>columns = [(''a'', Numeric), (''b'', Object)],
         rows = [[Missing, Txt ''x''], [Missing, Missing]]\<rparr>
        (Some FillMissing)
        \<lparr>data = Some \<lparr>columns = [(''a'', Numeric), (''b'', Object)],
                       rows = [[Missing, Txt ''x''], [Missing, Missing]]\<rparr>\<rparr> =
   (\<lparr>data = Some \<lparr>columns = [(''a'', Numeric), (''b'', Object)],
                   rows = [[Missing, Txt ''x''], [Missing, Txt ''Unknown'']]\<rparr>\<rparr>,
    [MissingTable [\<lparr>m_column = ''a'', m_count = 2, m_percentage = Fin 100\<rparr>,
                   \<lparr>m_column = ''b'', m_count = 1, m_percentage = Fin 50\<rparr>],
     AllMissingWarning [''a''],
     FilledAllMissing],
    Rerun)"
  by (simp add: tab2_def initialize_def cleaning_def missing_section_def missing_data_def
      missing_line_of_def missing_count_def column_cells_def isnull_def names_def
      missing_percentage_def np_div_def np_times_def np_round2_def rint_def len_def
      all_missing_cols_def fill_missing_def fill_value_def fillna_def mean_def Let_def
      upt_rec)

section \<open>Duplicate rows: count, preview and removal\<close>


lemma length_mark_all: "length (mark_all seen rs) = length rs"
  by (induction rs arbitrary: seen) auto

lemma select_rows_Nil: "select_rows [] [] = []"
  by (simp add: select_rows_def)

lemma select_rows_Cons:
  "select_rows (b # bs) (r # rs) = (if b then r # select_rows bs rs else select_rows bs rs)"
  by (simp add: select_rows_def)

lemma set_keep_first:
  "set (select_rows (map Not (mark_later seen rs)) rs) = set rs - set seen"
  by (induction rs arbitrary: seen) (auto simp: select_rows_Nil select_rows_Cons)

lemma distinct_keep_first:
  "distinct (select_rows (map Not (mark_later seen rs)) rs)"
  by (induction rs arbitrary: seen) (auto simp: select_rows_Nil select_rows_Cons set_keep_first)


lemma keep_first_distinct:
  "distinct rs \<Longrightarrow> set rs \<inter> set seen = {} \<Longrightarrow>
   select_rows (map Not (mark_later seen rs)) rs = rs"
  by (induction rs arbitrary: seen) (auto simp: select_rows_Nil select_rows_Cons)

lemma count_mark_later:
  "length (filter (\<lambda>b. b) (mark_later seen rs)) + card (set rs - set seen) = length rs"
proof (induction rs arbitrary: seen)
  case Nil
  then show ?case by simp
next
  case (Cons r rs)
  have ih: "length (filter (\<lambda>b. b) (mark_later (r # seen) rs)) + card (set rs - set (r # seen)) = length rs"
    by (rule Cons)
  show ?case
  proof (cases "r \<in> set seen")
    case True
    then have "set (r # rs) - set seen = set rs - set (r # seen)" by auto
    then have "card (set (r # rs) - set seen) = card (set rs - set (r # seen))" by (rule arg_cong)
    with True ih show ?thesis by simp
  next
    case False
    then have "set (r # rs) - set seen = insert r (set rs - set (r # seen))" by auto
    then have "card (set (r # rs) - set seen) = card (insert r (set rs - set (r # seen)))"
      by (rule arg_cong)
    also have "\<dots> = Suc (card (set rs - set (r # seen)))"
      by (rule card_insert_disjoint) auto
    finally have "card (set (r # rs) - set seen) = Suc (card (set rs - set (r # seen)))" .
    with False ih show ?thesis by simp
  qed
qed

lemma select_mark_all:
  "select_rows (mark_all seen rs) rs = filter (\<lambda>r. r \<in> set seen \<or> 2 \<le> count_list rs r) rs"
proof (induction rs arbitrary: seen)
  case Nil
  then show ?case by (simp add: select_rows_Nil)
next
  case (Cons r rs)
  have head: "(r \<in> set seen \<or> r \<in> set rs) = (r \<in> set seen \<or> 2 \<le> count_list (r # rs) r)"
    using count_list_0_iff[of rs r] by auto
  have tail: "filter (\<lambda>x. x \<in> set (r # seen) \<or> 2 \<le> count_list rs x) rs =
              filter (\<lambda>x. x \<in> set seen \<or> 2 \<le> count_list (r # rs) x) rs"
  proof (rule filter_cong[OF refl])
    fix x assume "x \<in> set rs"
    then have "count_list rs x \<noteq> 0" by (simp add: count_list_0_iff)
    then show "(x \<in> set (r # seen) \<or> 2 \<le> count_list rs x) =
               (x \<in> set seen \<or> 2 \<le> count_list (r # rs) x)"
      by auto
  qed
  show ?case
    using Cons[of "r # seen"] head tail by (simp add: select_rows_Cons)
qed



lemma distinct_count_list_le: "distinct rs \<Longrightarrow> count_list rs r \<le> 1"
  by (induction rs) (auto simp: count_list_0_iff)

lemma duplicate_count_rows:
  "\<not> empty_frame df \<Longrightarrow> duplicate_count df + card (set (rows df)) = len df"
  using count_mark_later[of "[]" "rows df"]
  by (simp add: duplicate_count_def duplicated_def len_def)



lemma drop_duplicates_without_columns: "columns df = [] \<Longrightarrow> drop_duplicates df = df"
  by (simp add: drop_duplicates_def empty_frame_def)

lemma duplicate_count_without_columns: "columns df = [] \<Longrightarrow> duplicate_count df = 0"
  by (simp add: duplicate_count_def duplicated_def empty_frame_def)

text \<open>
  A frame without columns that still has rows is a state of the page: removing the empty
  columns of a frame whose columns are all empty leaves the index behind.
\<close>

lemma frame_without_columns_reachable:
  "held (cleaning (Some RemoveEmptyColumns)
           \<lparr>columns = [(''a'', Numeric)], rows = [[Missing], [Missing]]\<rparr>) =
   \<lparr>columns = [], rows = [[], []]\<rparr>"
  by (simp add: cleaning_def missing_section_def missing_data_def missing_line_of_def
      missing_count_def column_cells_def isnull_def all_missing_cols_def names_def drop_columns_def
      Let_def)

text \<open>
  C6, as stated, at a frame without columns: its two rows are equal cell for cell, so one
  group of two rows would give the count 1, and the page counts 0.
\<close>

theorem duplicate_report_counterexample:
  "duplicate_count \<lparr>columns = [], rows = [[], []]\<rparr> = 0 \<and>
   len \<lparr>columns = [], rows = [[], []]\<rparr> -
     card (set (rows \<lparr>columns = [], rows = [[], []]\<rparr>)) = 1"
  by (simp add: duplicate_count_def duplicated_def empty_frame_def len_def)

text \<open>
  C6, amended. For every frame with at least one column, the duplicate count is the number
  of rows minus the number of distinct rows (rows compared cell by cell, a missing cell equal
  to a missing cell), and the preview holds, in the order of the frame, exactly the rows that
  occur at least twice; where the count is 0 the page builds no preview and there is no such
  row.
\<close>

theorem duplicate_report:
  assumes "columns df \<noteq> []"
  shows "duplicate_count df = len df - card (set (rows df)) \<and>
         (case duplicates df of None \<Rightarrow> [] | Some p \<Rightarrow> p) =
           filter (\<lambda>r. 2 \<le> count_list (rows df) r) (rows df)"
proof (cases "rows df = []")
  case True
  then show ?thesis
    by (simp add: duplicate_count_def duplicated_def empty_frame_def len_def duplicates_def)
next
  case False
  with assms have ne: "\<not> empty_frame df" by (simp add: empty_frame_def)
  have cnt: "duplicate_count df + card (set (rows df)) = len df"
    by (rule duplicate_count_rows[OF ne])
  have pre: "select_rows (duplicated_keep_False df) (rows df) =
             filter (\<lambda>r. 2 \<le> count_list (rows df) r) (rows df)"
    using ne select_mark_all[of "[]" "rows df"] by (simp add: duplicated_keep_False_def)
  have none: "filter (\<lambda>r. 2 \<le> count_list (rows df) r) (rows df) = []"
    if zero: "duplicate_count df = 0"
  proof -
    from cnt zero have "card (set (rows df)) = length (rows df)" by (simp add: len_def)
    then have "distinct (rows df)" by (rule card_distinct)
    then have one: "count_list (rows df) r \<le> 1" for r by (rule distinct_count_list_le)
    have "\<not> 2 \<le> count_list (rows df) r" for r using one[of r] by linarith
    then show ?thesis by simp
  qed
  from cnt have "duplicate_count df = len df - card (set (rows df))" by simp
  moreover have "(case duplicates df of None \<Rightarrow> [] | Some p \<Rightarrow> p) =
                 filter (\<lambda>r. 2 \<le> count_list (rows df) r) (rows df)"
    using pre none by (simp add: duplicates_def)
  ultimately show ?thesis by simp
qed

theorem duplicate_report_witness:
  "columns \<lparr>columns = [(''n'', Numeric), (''t'', Object)],
            rows = [[Num 1, Txt ''x''], [Num 1, Txt ''x''], [Num 2, Txt ''y'']]\<rparr> \<noteq> [] \<and>
   duplicate_count \<lparr>columns = [(''n'', Numeric), (''t'', Object)],
            rows = [[Num 1, Txt ''x''], [Num 1, Txt ''x''], [Num 2, Txt ''y'']]\<rparr> = 1 \<and>
   duplicates \<lparr>columns = [(''n'', Numeric), (''t'', Object)],
            rows = [[Num 1, Txt ''x''], [Num 1, Txt ''x''], [Num 2, Txt ''y'']]\<rparr> =
     Some [[Num 1, Txt ''x''], [Num 1, Txt ''x'']]"
proof -
  let ?df = "\<lparr>columns = [(''n'', Numeric), (''t'', Object)],
              rows = [[Num 1, Txt ''x''], [Num 1, Txt ''x''], [Num 2, Txt ''y'']]\<rparr>"
  have h: "columns ?df \<noteq> []" by simp
  have c: "card (set (rows ?df)) = 2" by (simp add: card_insert_if)
  have d: "duplicates ?df \<noteq> None"
    by (simp add: duplicates_def duplicate_count_def duplicated_def empty_frame_def)
  from duplicate_report[OF h] c d show ?thesis
    by (auto simp: len_def)
qed




text \<open>
  C8. Removing the duplicates a second time changes nothing, for every frame.
\<close>

theorem drop_duplicates_idempotent:
  "drop_duplicates (drop_duplicates df) = drop_duplicates df"
proof (cases "empty_frame df")
  case True
  then show ?thesis by (simp add: drop_duplicates_def)
next
  case False
  let ?kept = "select_rows (map Not (mark_later [] (rows df))) (rows df)"
  have d: "distinct ?kept" by (rule distinct_keep_first)
  have "select_rows (map Not (mark_later [] ?kept)) ?kept = ?kept"
    by (rule keep_first_distinct[OF d]) simp
  with False show ?thesis
    by (simp add: drop_duplicates_def duplicated_def empty_frame_def)
qed

end
